theory Spec2Isabelle
  imports Main "HOL-Library.AList"
begin

section \<open>Values decoded from JSON and their Python text\<close>

text \<open>
  The result of \<open>r.json()\<close>. A Python \<open>dict\<close> keeps its keys in insertion order, so an
  object is an association list. JSON numbers are the integers (\<open>expires_in\<close> is a number
  of seconds); fractional numbers are outside this development. Characters are the
  256 code points of Latin-1, which is how \<open>http.client\<close> decodes a header.
\<close>

datatype json =
    JNull
  | JBool bool
  | JInt int
  | JStr string
  | JList "json list"
  | JDict "(string \<times> json) list"

definition digit_char :: "nat \<Rightarrow> char" where
  "digit_char d = ''0123456789'' ! d"

fun str_nat :: "nat \<Rightarrow> string" where
  "str_nat n = (if n < 10 then [digit_char n] else str_nat (n div 10) @ [digit_char (n mod 10)])"

declare str_nat.simps [simp del]

definition str_int :: "int \<Rightarrow> string" where
  "str_int i = (if i < 0 then CHR ''-'' # str_nat (nat (- i)) else str_nat (nat i))"

definition hex_char :: "nat \<Rightarrow> char" where
  "hex_char d = ''0123456789abcdef'' ! d"

text \<open>\<open>str.isprintable\<close> on one Latin-1 character.\<close>

definition printable :: "char \<Rightarrow> bool" where
  "printable c = (let n = (of_char c :: nat) in (32 \<le> n \<and> n < 127) \<or> (161 \<le> n \<and> n \<noteq> 173))"

text \<open>\<open>repr\<close> of a \<open>str\<close>: the quote is \<open>'\<close> unless the text holds \<open>'\<close> and no \<open>"\<close>.\<close>

definition repr_quote :: "string \<Rightarrow> char" where
  "repr_quote s = (if CHR 0x27 \<in> set s \<and> CHR 0x22 \<notin> set s then CHR 0x22 else CHR 0x27)"

definition repr_char :: "char \<Rightarrow> char \<Rightarrow> string" where
  "repr_char q c =
     (if c = q \<or> c = CHR 0x5C then [CHR 0x5C, c]
      else if c = CHR 0x09 then [CHR 0x5C, CHR ''t'']
      else if c = CHR 0x0A then [CHR 0x5C, CHR ''n'']
      else if c = CHR 0x0D then [CHR 0x5C, CHR ''r'']
      else if printable c then [c]
      else [CHR 0x5C, CHR ''x'', hex_char (of_char c div 16), hex_char (of_char c mod 16)])"

definition repr_str :: "string \<Rightarrow> string" where
  "repr_str s = (let q = repr_quote s in [q] @ concat (map (repr_char q) s) @ [q])"

fun join :: "string \<Rightarrow> string list \<Rightarrow> string" where
  "join sep [] = []"
| "join sep [x] = x"
| "join sep (x # y # ys) = x @ sep @ join sep (y # ys)"

fun py_repr :: "json \<Rightarrow> string" where
  "py_repr JNull = ''None''"
| "py_repr (JBool b) = (if b then ''True'' else ''False'')"
| "py_repr (JInt i) = str_int i"
| "py_repr (JStr s) = repr_str s"
| "py_repr (JList xs) = ''['' @ join '', '' (map py_repr xs) @ '']''"
| "py_repr (JDict kvs) =
     ''{'' @ join '', '' (map (\<lambda>kv. repr_str (fst kv) @ '': '' @ py_repr (snd kv)) kvs) @ ''}''"

text \<open>\<open>str(x)\<close>: a \<open>str\<close> is itself, every other value is its \<open>repr\<close>.\<close>

definition py_str :: "json \<Rightarrow> string" where
  "py_str v = (case v of JStr s \<Rightarrow> s | _ \<Rightarrow> py_repr v)"

section \<open>Errors, HTTP messages and the outside world\<close>

datatype error =
    HTTPError string
  | RetryError
  | ConnectionError
  | JSONDecodeError
  | KeyError string
  | TypeError
  | AttributeError
  | OverflowError

text \<open>
  A \<open>requests.Response\<close> as the client reads it: \<open>headers\<close> is the lookup
  \<open>r.headers[name]\<close> (\<open>None\<close> where it raises \<open>KeyError\<close>), \<open>json\<close> is \<open>r.json()\<close>
  (\<open>None\<close> where the body does not decode).
\<close>

record response =
  status_code :: int
  reason :: string
  url :: string
  headers :: "string \<Rightarrow> string option"
  json :: "json option"

record request =
  req_method :: string
  req_url :: string
  req_headers :: "(string \<times> string) list"
  req_params :: json
  req_data :: "(string \<times> string) list"
  req_timeout :: nat
  req_proxies :: "(string \<times> string) list option"

text \<open>What one physical attempt meets: a response, or a connection failure or timeout.\<close>

datatype reply = Resp response | NetFail

datatype event =
    Now int
  | Post request
  | Get request
  | Sleep nat
  | Print string

text \<open>
  The world outside the client: the values \<open>datetime.datetime.today()\<close> will return
  (microseconds since \<open>datetime.min\<close>), the replies of the token endpoint and of the API
  host to the physical requests still to come, and everything the client has done so far.
\<close>

record world =
  clock :: "nat \<Rightarrow> int"
  token_endpoint :: "nat \<Rightarrow> reply"
  api :: "nat \<Rightarrow> reply"
  trace :: "event list"

definition emit :: "event \<Rightarrow> world \<Rightarrow> world" where
  "emit e w = w\<lparr>trace := trace w @ [e]\<rparr>"

definition today :: "world \<Rightarrow> int \<times> world" where
  "today w = (clock w 0, emit (Now (clock w 0)) (w\<lparr>clock := (\<lambda>n. clock w (Suc n))\<rparr>))"

definition print :: "string \<Rightarrow> world \<Rightarrow> world" where
  "print s w = emit (Print s) w"

text \<open>\<open>requests.post\<close>: a session of its own, one physical attempt.\<close>

definition requests_post :: "request \<Rightarrow> world \<Rightarrow> reply \<times> world" where
  "requests_post rq w =
     (token_endpoint w 0, emit (Post rq) (w\<lparr>token_endpoint := (\<lambda>n. token_endpoint w (Suc n))\<rparr>))"

text \<open>
  \<open>Response.raise_for_status\<close>: the text of the \<open>HTTPError\<close> it raises, \<open>None\<close> where
  it returns.
\<close>

definition raise_for_status :: "response \<Rightarrow> string option" where
  "raise_for_status r =
     (if 400 \<le> status_code r \<and> status_code r < 500
      then Some (str_int (status_code r) @ '' Client Error: '' @ reason r @ '' for url: '' @ url r)
      else if 500 \<le> status_code r \<and> status_code r < 600
      then Some (str_int (status_code r) @ '' Server Error: '' @ reason r @ '' for url: '' @ url r)
      else None)"

section \<open>The client\<close>

definition ENDPOINT_ACCESS_TOKEN :: string where
  "ENDPOINT_ACCESS_TOKEN = ''https://entreprise.pole-emploi.fr/connexion/oauth2/access_token''"

definition OFFRES_DEMPLOI_V2_BASE :: string where
  "OFFRES_DEMPLOI_V2_BASE = ''https://api.emploi-store.fr/partenaire/offresdemploi/v2''"

definition REFERENTIEL_ENDPOINT :: string where
  "REFERENTIEL_ENDPOINT = OFFRES_DEMPLOI_V2_BASE @ ''/referentiel''"

definition SEARCH_ENDPOINT :: string where
  "SEARCH_ENDPOINT = OFFRES_DEMPLOI_V2_BASE @ ''/offres/search''"

text \<open>
  The token is the decoded response, a \<open>dict\<close>, whose key \<open>expires_at\<close> holds a
  \<open>datetime\<close>: \<open>entries\<close> are the entries as decoded, and every read of
  \<open>token["expires_at"]\<close> is a read of \<open>expires_at\<close>.
\<close>

record token =
  entries :: "(string \<times> json) list"
  expires_at :: int

record retry =
  total :: nat
  backoff_factor :: nat
  status_forcelist :: "int list"
  respect_retry_after_header :: bool

record client =
  client_id :: string
  client_secret :: string
  verbose :: bool
  proxies :: "(string \<times> string) list option"
  timeout :: nat
  session :: retry
  token :: "token option"

text \<open>\<open>Api.__init__\<close>: no \<open>token\<close> attribute yet.\<close>

definition Api :: "string \<Rightarrow> string \<Rightarrow> bool \<Rightarrow> (string \<times> string) list option \<Rightarrow> client" where
  "Api cid secret verb prox =
     \<lparr>client_id = cid, client_secret = secret, verbose = verb, proxies = prox, timeout = 60,
      session = \<lparr>total = 3, backoff_factor = 1, status_forcelist = [502, 429],
                 respect_retry_after_header = False\<rparr>,
      token = None\<rparr>"

subsection \<open>get_token\<close>

definition token_request :: "client \<Rightarrow> request" where
  "token_request st =
     \<lparr>req_method = ''POST'', req_url = ENDPOINT_ACCESS_TOKEN,
      req_headers = [(''content-type'', ''application/x-www-form-urlencoded'')],
      req_params = JDict [(''realm'', JStr ''/partenaire'')],
      req_data = [(''grant_type'', ''client_credentials''),
                  (''client_id'', client_id st),
                  (''client_secret'', client_secret st),
                  (''scope'', ''api_offresdemploiv2 o2dsoffre application_'' @ client_id st)],
      req_timeout = timeout st, req_proxies = proxies st\<rparr>"

text \<open>
  \<open>datetime.timedelta(seconds=v)\<close> in microseconds: a \<open>bool\<close> is an \<open>int\<close>, any other
  non-number is a \<open>TypeError\<close>, more than 999999999 days is an \<open>OverflowError\<close>.
\<close>

definition timedelta_seconds :: "json \<Rightarrow> error + int" where
  "timedelta_seconds v =
     (case v of
        JInt n \<Rightarrow> (if n div 86400 < - 999999999 \<or> 999999999 < n div 86400 then Inl OverflowError
                   else Inr (n * 1000000))
      | JBool b \<Rightarrow> Inr (if b then 1000000 else 0)
      | _ \<Rightarrow> Inl TypeError)"

definition DATETIME_MAX :: int where
  "DATETIME_MAX = 3652059 * 86400 * 1000000 - 1"

text \<open>\<open>datetime + timedelta\<close>: the result lies between \<open>datetime.min\<close> and \<open>datetime.max\<close>.\<close>

definition datetime_add :: "int \<Rightarrow> int \<Rightarrow> error + int" where
  "datetime_add t d = (if t + d < 0 \<or> DATETIME_MAX < t + d then Inl OverflowError else Inr (t + d))"

text \<open>
  The \<open>try\<close> statement of \<open>get_token\<close>: the error it raises, or the token it builds
  from the response and the time taken before the request.
\<close>

definition token_of_response :: "int \<Rightarrow> response \<Rightarrow> error + token" where
  "token_of_response current_time r =
     (case raise_for_status r of
        Some err \<Rightarrow>
          (if status_code r = 400
           then (case json r of
                   None \<Rightarrow> Inl JSONDecodeError
                 | Some j \<Rightarrow> Inl (HTTPError (err @ [CHR 0x0A] @ py_str j)))
           else Inl (HTTPError err))
      | None \<Rightarrow>
          (case json r of
             None \<Rightarrow> Inl JSONDecodeError
           | Some (JDict kvs) \<Rightarrow>
               (case map_of kvs ''expires_in'' of
                  None \<Rightarrow> Inl (KeyError ''expires_in'')
                | Some v \<Rightarrow>
                    (case timedelta_seconds v of
                       Inl e \<Rightarrow> Inl e
                     | Inr d \<Rightarrow>
                         (case datetime_add current_time d of
                            Inl e \<Rightarrow> Inl e
                          | Inr t \<Rightarrow> Inr \<lparr>entries = kvs, expires_at = t\<rparr>)))
           | Some _ \<Rightarrow> Inl TypeError))"

text \<open>
  \<open>get_token\<close>: the time is taken, the request is posted, and only a token that was
  built is assigned to \<open>self.token\<close> and returned.
\<close>

definition get_token :: "client \<Rightarrow> world \<Rightarrow> (error + token) \<times> client \<times> world" where
  "get_token st w =
     (let (current_time, w1) = today w;
          (rep, w2) = requests_post (token_request st) w1
      in case rep of
           NetFail \<Rightarrow> (Inl ConnectionError, st, w2)
         | Resp r \<Rightarrow>
             (case token_of_response current_time r of
                Inl e \<Rightarrow> (Inl e, st, w2)
              | Inr tok \<Rightarrow> (Inr tok, st\<lparr>token := Some tok\<rparr>, w2)))"

subsection \<open>is_expired and get_headers\<close>

text \<open>
  \<open>is_expired\<close> reads the clock first, then \<open>self.token\<close>, which raises
  \<open>AttributeError\<close> while the attribute does not exist.
\<close>

definition is_expired :: "client \<Rightarrow> world \<Rightarrow> (error + bool) \<times> world" where
  "is_expired st w =
     (let (now, w1) = today w
      in case token st of
           None \<Rightarrow> (Inl AttributeError, w1)
         | Some t \<Rightarrow> (Inr (expires_at t \<le> now), w1))"

text \<open>The two branches of \<open>get_headers\<close> that ask for a token: the message, then \<open>get_token\<close>.\<close>

definition request_token :: "string \<Rightarrow> client \<Rightarrow> world \<Rightarrow> (error + token) \<times> client \<times> world" where
  "request_token msg st w = get_token st (if verbose st then print msg w else w)"

definition bearer :: "client \<Rightarrow> error + (string \<times> string) list" where
  "bearer st =
     (case token st of
        None \<Rightarrow> Inl AttributeError
      | Some t \<Rightarrow>
          (case map_of (entries t) ''access_token'' of
             None \<Rightarrow> Inl (KeyError ''access_token'')
           | Some a \<Rightarrow> Inr [(''Authorization'', ''Bearer '' @ py_str a)]))"

definition get_headers :: "client \<Rightarrow> world \<Rightarrow> (error + (string \<times> string) list) \<times> client \<times> world" where
  "get_headers st w =
     (case token st of
        None \<Rightarrow>
          (case request_token ''Token has not been requested yet. Requesting token'' st w of
             (Inl e, st1, w1) \<Rightarrow> (Inl e, st1, w1)
           | (Inr _, st1, w1) \<Rightarrow> (bearer st1, st1, w1))
      | Some _ \<Rightarrow>
          (case is_expired st w of
             (Inl e, w0) \<Rightarrow> (Inl e, st, w0)
           | (Inr True, w0) \<Rightarrow>
               (case request_token ''Token is expired. Requesting new token'' st w0 of
                  (Inl e, st1, w1) \<Rightarrow> (Inl e, st1, w1)
                | (Inr _, st1, w1) \<Rightarrow> (bearer st1, st1, w1))
           | (Inr False, w0) \<Rightarrow> (bearer st, st, w0)))"

subsection \<open>The session: one GET through the mounted retry policy\<close>

text \<open>
  \<open>session.get\<close> hands the request to the adapter mounted in \<open>__init__\<close>, whose
  \<open>urlopen\<close> loop asks the \<open>Retry\<close> object after every attempt. \<open>GET\<close> is a method the
  policy may retry. Of \<open>Retry-After\<close> only the form in whole seconds is read. Redirects
  are not followed here: a reply is what the session gets for the URL it asked. The
  header values are taken as \<open>requests\<close> accepts them: for a value with a line break it
  raises before anything is sent, so the session here sends no less than the program.
\<close>

definition is_digit :: "char \<Rightarrow> bool" where
  "is_digit c = (c \<in> set ''0123456789'')"

definition parse_retry_after :: "string \<Rightarrow> nat option" where
  "parse_retry_after v =
     (if v \<noteq> [] \<and> list_all is_digit v
      then Some (foldl (\<lambda>acc c. 10 * acc + (of_char c - 48)) 0 v) else None)"

definition get_retry_after :: "response \<Rightarrow> nat option" where
  "get_retry_after r = (case headers r ''Retry-After'' of None \<Rightarrow> None | Some v \<Rightarrow> parse_retry_after v)"

definition RETRY_AFTER_STATUS_CODES :: "int list" where
  "RETRY_AFTER_STATUS_CODES = [413, 429, 503]"

text \<open>\<open>Retry.is_retry\<close>, with \<open>left\<close> the value of \<open>total\<close> at this attempt.\<close>

definition is_retry :: "retry \<Rightarrow> nat \<Rightarrow> response \<Rightarrow> bool" where
  "is_retry cfg left r =
     (status_code r \<in> set (status_forcelist cfg)
      \<or> (0 < left \<and> respect_retry_after_header cfg \<and> headers r ''Retry-After'' \<noteq> None
          \<and> status_code r \<in> set RETRY_AFTER_STATUS_CODES))"

text \<open>\<open>Retry.get_backoff_time\<close> after \<open>n\<close> consecutive failed attempts, in seconds.\<close>

definition get_backoff_time :: "retry \<Rightarrow> nat \<Rightarrow> nat" where
  "get_backoff_time cfg n = (if n \<le> 1 then 0 else min 120 (backoff_factor cfg * 2 ^ (n - 1)))"

definition sleep_backoff :: "retry \<Rightarrow> nat \<Rightarrow> world \<Rightarrow> world" where
  "sleep_backoff cfg n w =
     (if get_backoff_time cfg n = 0 then w else emit (Sleep (get_backoff_time cfg n)) w)"

text \<open>\<open>Retry.sleep(response)\<close>; after a connection failure there is no response.\<close>

definition sleep :: "retry \<Rightarrow> response option \<Rightarrow> nat \<Rightarrow> world \<Rightarrow> world" where
  "sleep cfg resp n w =
     (case (if respect_retry_after_header cfg then resp else None) of
        None \<Rightarrow> sleep_backoff cfg n w
      | Some r \<Rightarrow>
          (case get_retry_after r of
             None \<Rightarrow> sleep_backoff cfg n w
           | Some d \<Rightarrow> (if d = 0 then sleep_backoff cfg n w else emit (Sleep d) w)))"

text \<open>One physical attempt: the request goes out and the next reply of the host comes back.\<close>

definition send :: "request \<Rightarrow> world \<Rightarrow> reply \<times> world" where
  "send rq w = (api w 0, emit (Get rq) (w\<lparr>api := (\<lambda>n. api w (Suc n))\<rparr>))"

text \<open>
  The loop: \<open>n\<close> failed attempts so far, \<open>left\<close> retries still allowed. A failed attempt
  with none left ends in \<open>MaxRetryError\<close>, which \<open>requests\<close> raises as \<open>RetryError\<close> after a
  response and as \<open>ConnectionError\<close> (or a timeout) after a failure of the connection.
\<close>

fun urlopen :: "retry \<Rightarrow> request \<Rightarrow> nat \<Rightarrow> nat \<Rightarrow> world \<Rightarrow> (error + response) \<times> world" where
  "urlopen cfg rq n 0 w =
     (case send rq w of
        (NetFail, w1) \<Rightarrow> (Inl ConnectionError, w1)
      | (Resp r, w1) \<Rightarrow> (if is_retry cfg 0 r then (Inl RetryError, w1) else (Inr r, w1)))"
| "urlopen cfg rq n (Suc left) w =
     (case send rq w of
        (NetFail, w1) \<Rightarrow> urlopen cfg rq (Suc n) left (sleep cfg None (Suc n) w1)
      | (Resp r, w1) \<Rightarrow>
          (if is_retry cfg (Suc left) r
           then urlopen cfg rq (Suc n) left (sleep cfg (Some r) (Suc n) w1)
           else (Inr r, w1)))"

definition api_request :: "client \<Rightarrow> string \<Rightarrow> json \<Rightarrow> (string \<times> string) list \<Rightarrow> request" where
  "api_request st u params hdrs =
     \<lparr>req_method = ''GET'', req_url = u, req_headers = hdrs, req_params = params, req_data = [],
      req_timeout = timeout st, req_proxies = proxies st\<rparr>"

definition session_get :: "client \<Rightarrow> request \<Rightarrow> world \<Rightarrow> (error + response) \<times> world" where
  "session_get st rq w = urlopen (session st) rq 0 (total (session st)) w"

subsection \<open>referentiel\<close>

definition referentiel :: "client \<Rightarrow> string \<Rightarrow> world \<Rightarrow> (error + json) \<times> client \<times> world" where
  "referentiel st name w =
     (case get_headers st w of
        (Inl e, st1, w1) \<Rightarrow> (Inl e, st1, w1)
      | (Inr hdrs, st1, w1) \<Rightarrow>
          (case session_get st1 (api_request st1 (REFERENTIEL_ENDPOINT @ ''/'' @ name) JNull hdrs) w1 of
             (Inl e, w2) \<Rightarrow> (Inl e, st1, w2)
           | (Inr r, w2) \<Rightarrow>
               (case raise_for_status r of
                  Some err \<Rightarrow> (Inl (HTTPError err), st1, w2)
                | None \<Rightarrow>
                    (case json r of
                       None \<Rightarrow> (Inl JSONDecodeError, st1, w2)
                     | Some j \<Rightarrow> (Inr j, st1, w2)))))"

subsection \<open>search\<close>

text \<open>
  \<open>re.search\<close> with the pattern of \<open>search\<close>: the leftmost place where \<open>offres\<close>, a space,
  digits, \<open>-\<close>, digits, \<open>/\<close> and digits follow one another; each group takes every digit
  there is. The groups are the matched texts.
\<close>

definition match_here :: "string \<Rightarrow> (string \<times> string \<times> string) option" where
  "match_here s =
     (if take 7 s \<noteq> ''offres '' then None
      else let s1 = drop 7 s; a = takeWhile is_digit s1
           in if a = [] then None
              else (case dropWhile is_digit s1 of
                      [] \<Rightarrow> None
                    | c # s2 \<Rightarrow>
                        (if c \<noteq> CHR ''-'' then None
                         else let b = takeWhile is_digit s2
                              in if b = [] then None
                                 else (case dropWhile is_digit s2 of
                                         [] \<Rightarrow> None
                                       | d # s3 \<Rightarrow>
                                           (if d \<noteq> CHR ''/'' then None
                                            else let m = takeWhile is_digit s3
                                                 in if m = [] then None else Some (a, b, m))))))"

fun re_search :: "string \<Rightarrow> (string \<times> string \<times> string) option" where
  "re_search [] = match_here []"
| "re_search (c # s) = (case match_here (c # s) of Some g \<Rightarrow> Some g | None \<Rightarrow> re_search s)"

definition groupdict :: "string \<times> string \<times> string \<Rightarrow> json" where
  "groupdict g =
     (case g of (a, b, m) \<Rightarrow>
        JDict [(''first_index'', JStr a), (''last_index'', JStr b), (''max_results'', JStr m)])"

text \<open>
  What \<open>search\<close> does with the response of the session: the \<open>try\<close> statement.
  \<open>Inr None\<close> is the \<open>None\<close> the method returns when it falls off its end.
  \<open>r.headers\<close> is a case-insensitive dictionary, which looks a name up in lower case:
  the \<open>KeyError\<close> for an absent \<open>Content-Range\<close> names \<open>content-range\<close>.
\<close>

definition search_response :: "response \<Rightarrow> bool \<Rightarrow> world \<Rightarrow> (error + json option) \<times> world" where
  "search_response r silent_http_errors w =
     (case raise_for_status r of
        Some err \<Rightarrow>
          (if status_code r = 400
           then (case json r of
                   None \<Rightarrow> (Inl JSONDecodeError, w)
                 | Some (JDict kvs) \<Rightarrow>
                     (case map_of kvs ''message'' of
                        None \<Rightarrow> (Inl (KeyError ''message''), w)
                      | Some (JStr m) \<Rightarrow>
                          (let complete_message = err @ [CHR 0x0A] @ m
                           in if silent_http_errors then (Inr None, print complete_message w)
                              else (Inl (HTTPError complete_message), w))
                      | Some _ \<Rightarrow> (Inl TypeError, w))
                 | Some _ \<Rightarrow> (Inl TypeError, w))
           else if silent_http_errors then (Inr None, print err w)
           else (Inl (HTTPError err), w))
      | None \<Rightarrow>
          (case headers r ''Content-Range'' of
             None \<Rightarrow> (Inl (KeyError ''content-range''), w)
           | Some h \<Rightarrow>
               (case re_search h of
                  None \<Rightarrow> (Inl AttributeError, w)
                | Some g \<Rightarrow>
                    (case json r of
                       None \<Rightarrow> (Inl JSONDecodeError, w)
                     | Some (JDict kvs) \<Rightarrow>
                         (Inr (Some (JDict (AList.update ''Content-Range'' (groupdict g) kvs))), w)
                     | Some _ \<Rightarrow> (Inl AttributeError, w)))))"

definition search :: "client \<Rightarrow> json \<Rightarrow> bool \<Rightarrow> world \<Rightarrow> (error + json option) \<times> client \<times> world" where
  "search st params silent_http_errors w =
     (let w0 = (if verbose st then print (''Making request with params '' @ py_str params) w else w)
      in case get_headers st w0 of
           (Inl e, st1, w1) \<Rightarrow> (Inl e, st1, w1)
         | (Inr hdrs, st1, w1) \<Rightarrow>
             (case session_get st1 (api_request st1 SEARCH_ENDPOINT params hdrs) w1 of
                (Inl e, w2) \<Rightarrow> (Inl e, st1, w2)
              | (Inr r, w2) \<Rightarrow>
                  (case search_response r silent_http_errors w2 of (res, w3) \<Rightarrow> (res, st1, w3))))"

subsection \<open>Sequences of calls on one client\<close>

datatype call = GetToken | Referentiel string | Search json bool

fun exec :: "call \<Rightarrow> client \<times> world \<Rightarrow> client \<times> world" where
  "exec GetToken (st, w) = snd (get_token st w)"
| "exec (Referentiel name) (st, w) = snd (referentiel st name w)"
| "exec (Search params silent) (st, w) = snd (search st params silent w)"

definition run :: "call list \<Rightarrow> client \<times> world \<Rightarrow> client \<times> world" where
  "run cs sw = foldl (\<lambda>s c. exec c s) sw cs"

text \<open>What a call adds to the trace.\<close>

definition new_events :: "world \<Rightarrow> world \<Rightarrow> event list" where
  "new_events w w' = drop (length (trace w)) (trace w')"

section \<open>Vocabulary of the properties, and example inputs\<close>

text \<open>The \<open>expires_in\<close> of a token response, in seconds, where it is a number.\<close>

definition expires_in_seconds :: "response \<Rightarrow> int option" where
  "expires_in_seconds r =
     (case json r of
        Some (JDict kvs) \<Rightarrow>
          (case map_of kvs ''expires_in'' of
             Some (JInt n) \<Rightarrow> Some n
           | Some (JBool b) \<Rightarrow> Some (if b then 1 else 0)
           | _ \<Rightarrow> None)
      | _ \<Rightarrow> None)"

definition plain_response :: "int \<Rightarrow> string \<Rightarrow> json option \<Rightarrow> response" where
  "plain_response code why body =
     \<lparr>status_code = code, reason = why, url = ''u'', headers = (\<lambda>_. None), json = body\<rparr>"

definition token_body :: json where
  "token_body = JDict [(''access_token'', JStr ''abc''), (''expires_in'', JInt 1500)]"

definition client0 :: client where
  "client0 = Api ''id'' ''secret'' False None"

text \<open>A world whose token endpoint grants \<open>token_body\<close> and whose API host answers \<open>rep\<close>.\<close>

definition world0 :: "int \<Rightarrow> reply \<Rightarrow> world" where
  "world0 t rep =
     \<lparr>clock = (\<lambda>_. t), token_endpoint = (\<lambda>_. Resp (plain_response 200 ''OK'' (Some token_body))),
      api = (\<lambda>_. rep), trace = []\<rparr>"








text \<open>
  How the token behind the headers of a call came to be there, for a call that takes the
  client from \<open>st\<close> to \<open>st'\<close> and the world from \<open>w\<close> to \<open>w'\<close>. It was fetched in the
  call when \<open>get_token\<close> ran in a world \<open>w1\<close> of this call (the token endpoint of \<open>w\<close>, the
  clock of \<open>w\<close> after the check if there was one, a trace that continues that of \<open>w\<close>
  without a request on the session), returned this token and left the client \<open>st'\<close>, and
  the trace of \<open>w'\<close> continues the trace \<open>get_token\<close> left.
\<close>

abbreviation fetched :: "client \<Rightarrow> world \<Rightarrow> token \<Rightarrow> client \<Rightarrow> world \<Rightarrow> bool" where
  "fetched st w tok st' w' \<equiv>
     (\<exists>w1 pre post. fst (get_token st w1) = Inr tok
        \<and> st' = fst (snd (get_token st w1))
        \<and> token_endpoint w1 = token_endpoint w
        \<and> clock w1 = (if token st = None then clock w else (\<lambda>n. clock w (Suc n)))
        \<and> trace w1 = trace w @ pre \<and> (\<forall>rq. Get rq \<notin> set pre)
        \<and> trace w' = trace (snd (snd (get_token st w1))) @ post)"

abbreviation provenance :: "client \<Rightarrow> world \<Rightarrow> token \<Rightarrow> client \<Rightarrow> world \<Rightarrow> bool" where
  "provenance st w tok st' w' \<equiv>
     (token st = Some tok \<and> st' = st \<and> clock w 0 < expires_at tok)
     \<or> ((token st = None \<or> (\<exists>t. token st = Some t \<and> expires_at t \<le> clock w 0))
         \<and> fetched st w tok st' w')"

text \<open>A client that holds a token, and a call of \<open>referentiel\<close> it then makes.\<close>

definition themes_response :: response where
  "themes_response =
     plain_response 200 ''OK'' (Some (JList [JDict [(''code'', JStr ''1''), (''libelle'', JStr ''Art'')]]))"

definition token1 :: token where
  "token1 = \<lparr>entries = [(''access_token'', JStr ''abc''), (''expires_in'', JInt 1500)],
             expires_at = 1500001000\<rparr>"

definition client1 :: client where
  "client1 = client0\<lparr>token := Some token1\<rparr>"

definition world1 :: world where
  "world1 =
     \<lparr>clock = (\<lambda>_. 1000), token_endpoint = (\<lambda>_. Resp (plain_response 200 ''OK'' (Some token_body))),
      api = (\<lambda>_. Resp themes_response), trace = [Now 1000, Post (token_request client0)]\<rparr>"

definition request1 :: request where
  "request1 =
     api_request client1 (REFERENTIEL_ENDPOINT @ ''/themes'') JNull [(''Authorization'', ''Bearer abc'')]"

definition world2 :: world where
  "world2 = world1\<lparr>trace := [Now 1000, Post (token_request client0), Now 1000, Get request1]\<rparr>"

text \<open>
  The response the session hands to \<open>search\<close>, where building the headers and the
  request through the session both succeed; and the world in which \<open>search\<close> then reads it.
\<close>

definition search_reply :: "client \<Rightarrow> json \<Rightarrow> world \<Rightarrow> (response \<times> client \<times> world) option" where
  "search_reply st params w =
     (let w0 = (if verbose st then print (''Making request with params '' @ py_str params) w else w)
      in case get_headers st w0 of
           (Inl e, st1, w1) \<Rightarrow> None
         | (Inr hdrs, st1, w1) \<Rightarrow>
             (case session_get st1 (api_request st1 SEARCH_ENDPOINT params hdrs) w1 of
                (Inl e, w2) \<Rightarrow> None
              | (Inr r, w2) \<Rightarrow> Some (r, st1, w2)))"

text \<open>The value under \<open>Content-Range\<close> of what \<open>search\<close> returned.\<close>

definition content_range :: "error + json option \<Rightarrow> json option" where
  "content_range res =
     (case res of Inr (Some (JDict kvs)) \<Rightarrow> map_of kvs ''Content-Range'' | _ \<Rightarrow> None)"

text \<open>The text that \<open>search\<close> printed last, if the last thing it did was to print.\<close>

definition printed :: "world \<Rightarrow> string option" where
  "printed w = (case rev (trace w) of Print s # _ \<Rightarrow> Some s | _ \<Rightarrow> None)"

definition offers_response :: response where
  "offers_response =
     \<lparr>status_code = 200, reason = ''OK'', url = ''u'',
      headers = (\<lambda>h. if h = ''Content-Range'' then Some ''offres 0-19/134'' else None),
      json = Some (JDict [(''resultats'', JList [])])\<rparr>"

definition invalid_filter :: json where
  "invalid_filter = JDict [(''message'', JStr ''invalid filter'')]"

text \<open>The world of \<open>client1\<close> with an API host that always answers \<open>r\<close>.\<close>

definition world_with :: "response \<Rightarrow> world" where
  "world_with r = world1\<lparr>api := (\<lambda>_. Resp r)\<rparr>"

text \<open>
  The error the session raised for the request of \<open>search\<close>, where the headers were built
  and the session raised instead of returning a response.
\<close>

definition search_session_error :: "client \<Rightarrow> json \<Rightarrow> world \<Rightarrow> error option" where
  "search_session_error st params w =
     (let w0 = (if verbose st then print (''Making request with params '' @ py_str params) w else w)
      in case get_headers st w0 of
           (Inl e, st1, w1) \<Rightarrow> None
         | (Inr hdrs, st1, w1) \<Rightarrow>
             (case session_get st1 (api_request st1 SEARCH_ENDPOINT params hdrs) w1 of
                (Inl e, w2) \<Rightarrow> Some e
              | (Inr r, w2) \<Rightarrow> None))"

text \<open>
  The words of the specification for the header: the whole header is \<open>offres\<close>, a space,
  digits, \<open>-\<close>, digits, \<open>/\<close> and digits, with nothing before and nothing after.
\<close>

definition content_range_form :: "string \<Rightarrow> bool" where
  "content_range_form h =
     (case match_here h of
        Some (a, b, m) \<Rightarrow> h = ''offres '' @ a @ ''-'' @ b @ ''/'' @ m
      | None \<Rightarrow> False)"

text \<open>A header with one character after the range, and a host that is busy for good.\<close>

definition trailing_response :: response where
  "trailing_response =
     \<lparr>status_code = 200, reason = ''OK'', url = ''u'',
      headers = (\<lambda>h. if h = ''Content-Range'' then Some ''offres 0-19/134x'' else None),
      json = Some (JDict [(''resultats'', JList [])])\<rparr>"

definition too_many_requests :: response where
  "too_many_requests = plain_response 429 ''Too Many Requests'' None"

text \<open>
  A \<open>search\<close> call surfaces the text \<open>msg\<close>: it raises \<open>HTTPError(msg)\<close> or, with
  \<open>silent_http_errors\<close>, prints \<open>msg\<close> and returns \<open>None\<close>.
\<close>

abbreviation surfaces :: "client \<Rightarrow> json \<Rightarrow> bool \<Rightarrow> world \<Rightarrow> string \<Rightarrow> bool" where
  "surfaces st params silent w msg \<equiv>
     (if silent
      then fst (search st params silent w) = Inr None
           \<and> printed (snd (snd (search st params silent w))) = Some msg
      else fst (search st params silent w) = Inl (HTTPError msg))"

definition invalid_client :: json where
  "invalid_client = JDict [(''error'', JStr ''invalid_client'')]"

text \<open>A world whose token endpoint always answers \<open>r\<close>.\<close>

definition token_world :: "response \<Rightarrow> world" where
  "token_world r = \<lparr>clock = (\<lambda>_. 1000), token_endpoint = (\<lambda>_. Resp r), api = (\<lambda>_. NetFail), trace = []\<rparr>"

section \<open>Properties\<close>

subsection \<open>get_token\<close>

lemmas get_token_unfold =
  get_token_def today_def requests_post_def Let_def emit_def new_events_def

lemma token_of_response_Inr:
  assumes "token_of_response t r = Inr tok"
  shows "\<exists>n. expires_in_seconds r = Some n \<and> expires_at tok = t + n * 1000000"
  using assms
  by (auto simp: token_of_response_def expires_in_seconds_def timedelta_seconds_def
        datetime_add_def
      split: option.splits json.splits sum.splits if_splits)

lemma get_token_world0:
  "get_token client0 (world0 1000 rep) =
     (Inr \<lparr>entries = [(''access_token'', JStr ''abc''), (''expires_in'', JInt 1500)],
           expires_at = 1500001000\<rparr>,
      client0\<lparr>token := Some \<lparr>entries = [(''access_token'', JStr ''abc''), (''expires_in'', JInt 1500)],
                              expires_at = 1500001000\<rparr>\<rparr>,
      \<lparr>clock = (\<lambda>_. 1000), token_endpoint = (\<lambda>_. Resp (plain_response 200 ''OK'' (Some token_body))),
       api = (\<lambda>_. rep), trace = [Now 1000, Post (token_request client0)]\<rparr>)"
  by (simp add: get_token_unfold world0_def plain_response_def token_body_def
      token_of_response_def timedelta_seconds_def datetime_add_def 
      raise_for_status_def DATETIME_MAX_def)

text \<open>
  C2. When \<open>get_token\<close> succeeds, the token endpoint answered with a response whose
  \<open>expires_in\<close> is a number \<open>n\<close> of seconds, and the \<open>expires_at\<close> of the token, which is
  the token stored in the client, is the clock value read before the POST went out plus
  exactly \<open>n\<close> seconds (times are in microseconds). The call reads the clock once, then
  posts: nothing is read when the response arrives.
\<close>

theorem get_token_expires_at:
  assumes "fst (get_token st w) = Inr tok"
  shows "\<exists>r n. token_endpoint w 0 = Resp r \<and> expires_in_seconds r = Some n
           \<and> expires_at tok = clock w 0 + n * 1000000
           \<and> token (fst (snd (get_token st w))) = Some tok
           \<and> new_events w (snd (snd (get_token st w))) = [Now (clock w 0), Post (token_request st)]"
  using assms
  by (auto simp: get_token_unfold dest: token_of_response_Inr split: reply.splits sum.splits)

theorem get_token_expires_at_witness:
  "fst (get_token client0 (world0 1000 NetFail))
     = Inr \<lparr>entries = [(''access_token'', JStr ''abc''), (''expires_in'', JInt 1500)],
            expires_at = 1000 + 1500 * 1000000\<rparr>
   \<and> (\<exists>r n. token_endpoint (world0 1000 NetFail) 0 = Resp r \<and> expires_in_seconds r = Some n
          \<and> 1000 + 1500 * 1000000 = clock (world0 1000 NetFail) 0 + n * 1000000)"
proof -
  have h: "fst (get_token client0 (world0 1000 NetFail))
     = Inr \<lparr>entries = [(''access_token'', JStr ''abc''), (''expires_in'', JInt 1500)],
            expires_at = 1000 + 1500 * 1000000\<rparr>"
    by (simp add: get_token_world0)
  from get_token_expires_at [OF h] show ?thesis
    using h by auto
qed

text \<open>
  C9. A \<open>get_token\<close> call that raises, whatever it raises, leaves the client as it was:
  the \<open>token\<close> attribute is absent if it was absent and holds the previous token
  otherwise. So the cached token changes only when the call succeeds.
\<close>

theorem get_token_failure_keeps_token:
  assumes "fst (get_token st w) = Inl e"
  shows "fst (snd (get_token st w)) = st \<and> token (fst (snd (get_token st w))) = token st"
  using assms
  by (auto simp: get_token_unfold split: reply.splits sum.splits)

theorem get_token_failure_keeps_token_witness:
  "fst (get_token (client0\<lparr>token := Some \<lparr>entries = [], expires_at = 5\<rparr>\<rparr>)
          (world0 1000 NetFail\<lparr>token_endpoint := (\<lambda>_. Resp (plain_response 401 ''Unauthorized'' None))\<rparr>))
     = Inl (HTTPError ''401 Client Error: Unauthorized for url: u'')
   \<and> token (fst (snd (get_token (client0\<lparr>token := Some \<lparr>entries = [], expires_at = 5\<rparr>\<rparr>)
          (world0 1000 NetFail\<lparr>token_endpoint := (\<lambda>_. Resp (plain_response 401 ''Unauthorized'' None))\<rparr>))))
     = Some \<lparr>entries = [], expires_at = 5\<rparr>"
proof -
  have h: "fst (get_token (client0\<lparr>token := Some \<lparr>entries = [], expires_at = 5\<rparr>\<rparr>)
          (world0 1000 NetFail\<lparr>token_endpoint := (\<lambda>_. Resp (plain_response 401 ''Unauthorized'' None))\<rparr>))
     = Inl (HTTPError ''401 Client Error: Unauthorized for url: u'')"
    by (simp add: get_token_unfold world0_def plain_response_def raise_for_status_def
        token_of_response_def str_int_def str_nat.simps digit_char_def)
  from get_token_failure_keeps_token [OF h] show ?thesis
    using h by simp
qed

subsection \<open>get_headers and the calls on the session\<close>

lemma get_token_trace:
  "trace (snd (snd (get_token st w))) = trace w @ [Now (clock w 0), Post (token_request st)]"
  by (simp add: get_token_unfold split: reply.splits sum.splits)

lemma get_token_Inr_state:
  "fst (get_token st w) = Inr tok \<Longrightarrow> fst (snd (get_token st w)) = st\<lparr>token := Some tok\<rparr>"
  by (auto simp: get_token_unfold split: reply.splits sum.splits)

lemma request_token_trace:
  "\<exists>evs. trace (snd (snd (request_token msg st w))) = trace w @ evs
     \<and> (\<forall>rq. Get rq \<notin> set evs) \<and> Post (token_request st) \<in> set evs"
  by (simp add: request_token_def get_token_trace print_def emit_def)

lemma request_token_world:
  "\<exists>w1 pre. request_token msg st w = get_token st w1
     \<and> token_endpoint w1 = token_endpoint w \<and> clock w1 = clock w
     \<and> trace w1 = trace w @ pre \<and> (\<forall>rq. Get rq \<notin> set pre)"
proof (cases "verbose st")
  case True
  then show ?thesis
    by (intro exI [of _ "print msg w"] exI [of _ "[Print msg]"])
       (simp add: request_token_def print_def emit_def)
next
  case False
  then show ?thesis
    by (intro exI [of _ w] exI [of _ "[]"]) (simp add: request_token_def)
qed

lemma bearer_Inr:
  "bearer st = Inr h \<Longrightarrow>
     \<exists>tok a. token st = Some tok \<and> map_of (entries tok) ''access_token'' = Some a
       \<and> h = [(''Authorization'', ''Bearer '' @ py_str a)]"
  by (auto simp: bearer_def split: option.splits)

lemma get_headers_events:
  "\<exists>evs. trace (snd (snd (get_headers st w))) = trace w @ evs \<and> (\<forall>rq. Get rq \<notin> set evs)"
proof (cases "token st")
  case None
  obtain evs where "trace (snd (snd (request_token ''Token has not been requested yet. Requesting token'' st w))) = trace w @ evs"
    "\<forall>rq. Get rq \<notin> set evs"
    using request_token_trace by blast
  with None show ?thesis
    by (auto simp: get_headers_def split: prod.splits sum.splits)
next
  case (Some t)
  let ?w0 = "snd (is_expired st w)"
  have t0: "trace ?w0 = trace w @ [Now (clock w 0)]"
    by (simp add: is_expired_def today_def emit_def Some)
  obtain evs where e: "trace (snd (snd (request_token ''Token is expired. Requesting new token'' st ?w0))) = trace ?w0 @ evs"
    "\<forall>rq. Get rq \<notin> set evs"
    using request_token_trace by blast
  show ?thesis
  proof (cases "fst (is_expired st w)")
    case (Inl e)
    then show ?thesis using Some t0
      by (auto simp: get_headers_def split: prod.splits sum.splits bool.splits)
  next
    case (Inr b)
    show ?thesis
    proof (cases b)
      case True
      with Inr Some t0 e show ?thesis
        by (auto simp: get_headers_def split: prod.splits sum.splits bool.splits)
    next
      case False
      with Inr Some t0 show ?thesis
        by (auto simp: get_headers_def split: prod.splits sum.splits bool.splits)
    qed
  qed
qed

lemma get_headers_Inr:
  assumes "fst (get_headers st w) = Inr h"
  shows "\<exists>tok a. token (fst (snd (get_headers st w))) = Some tok
           \<and> map_of (entries tok) ''access_token'' = Some a
           \<and> h = [(''Authorization'', ''Bearer '' @ py_str a)]
           \<and> provenance st w tok (fst (snd (get_headers st w))) (snd (snd (get_headers st w)))"
proof (cases "token st")
  case None
  let ?rt = "request_token ''Token has not been requested yet. Requesting token'' st w"
  from assms None obtain tok where ok: "fst ?rt = Inr tok"
    and h: "bearer (fst (snd ?rt)) = Inr h"
    and eq: "snd (get_headers st w) = snd ?rt"
    by (auto simp: get_headers_def split: prod.splits sum.splits)
  obtain w1 pre where w1: "?rt = get_token st w1" "token_endpoint w1 = token_endpoint w"
    "clock w1 = clock w" "trace w1 = trace w @ pre" "\<forall>rq. Get rq \<notin> set pre"
    using request_token_world by blast
  have tok: "fst (get_token st w1) = Inr tok" using ok w1(1) by simp
  have st1: "fst (snd ?rt) = st\<lparr>token := Some tok\<rparr>"
    using get_token_Inr_state [OF tok] w1(1) by simp
  from bearer_Inr [OF h] st1 obtain a where a:
    "map_of (entries tok) ''access_token'' = Some a" "h = [(''Authorization'', ''Bearer '' @ py_str a)]"
    by auto
  have "fetched st w tok (fst (snd (get_headers st w))) (snd (snd (get_headers st w)))"
    using tok w1 None eq
    by (intro exI [of _ w1] exI [of _ pre] exI [of _ "[]"]) simp
  then show ?thesis using None st1 a eq by auto
next
  case (Some t)
  let ?w0 = "snd (is_expired st w)"
  have ie: "fst (is_expired st w) = Inr (expires_at t \<le> clock w 0)"
    and c0: "clock ?w0 = (\<lambda>n. clock w (Suc n))"
    and t0: "trace ?w0 = trace w @ [Now (clock w 0)]"
    and p0: "token_endpoint ?w0 = token_endpoint w"
    by (simp_all add: is_expired_def today_def emit_def Some)
  show ?thesis
  proof (cases "expires_at t \<le> clock w 0")
    case True
    let ?rt = "request_token ''Token is expired. Requesting new token'' st ?w0"
    from assms Some ie True obtain tok where ok: "fst ?rt = Inr tok"
      and h: "bearer (fst (snd ?rt)) = Inr h"
      and eq: "snd (get_headers st w) = snd ?rt"
      by (auto simp: get_headers_def split: prod.splits sum.splits bool.splits)
    obtain w1 pre where w1: "?rt = get_token st w1" "token_endpoint w1 = token_endpoint ?w0"
      "clock w1 = clock ?w0" "trace w1 = trace ?w0 @ pre" "\<forall>rq. Get rq \<notin> set pre"
      using request_token_world by blast
    have tok: "fst (get_token st w1) = Inr tok" using ok w1(1) by simp
    have st1: "fst (snd ?rt) = st\<lparr>token := Some tok\<rparr>"
      using get_token_Inr_state [OF tok] w1(1) by simp
    from bearer_Inr [OF h] st1 obtain a where a:
      "map_of (entries tok) ''access_token'' = Some a" "h = [(''Authorization'', ''Bearer '' @ py_str a)]"
      by auto
    have "fetched st w tok (fst (snd (get_headers st w))) (snd (snd (get_headers st w)))"
      using tok w1 Some eq c0 t0 p0
      by (intro exI [of _ w1] exI [of _ "Now (clock w 0) # pre"] exI [of _ "[]"]) simp
    then show ?thesis using Some True st1 a eq by auto
  next
    case False
    from assms Some ie False have h: "bearer st = Inr h"
      and eq: "fst (snd (get_headers st w)) = st"
      by (auto simp: get_headers_def split: prod.splits sum.splits bool.splits)
    from bearer_Inr [OF h] Some obtain a where
      "map_of (entries t) ''access_token'' = Some a" "h = [(''Authorization'', ''Bearer '' @ py_str a)]"
      by auto
    then show ?thesis using Some False eq
      by auto
  qed
qed

lemma sleep_events:
  "\<exists>evs. trace (sleep cfg resp n w) = trace w @ evs \<and> (\<forall>e\<in>set evs. \<exists>d. e = Sleep d)
     \<and> api (sleep cfg resp n w) = api w"
  by (auto simp: sleep_def sleep_backoff_def emit_def split: option.splits)

lemma urlopen_events:
  "\<exists>evs. trace (snd (urlopen cfg rq n left w)) = trace w @ evs
     \<and> (\<forall>e\<in>set evs. e = Get rq \<or> (\<exists>d. e = Sleep d))
     \<and> length (filter (\<lambda>e. e = Get rq) evs) \<le> Suc left"
proof (induction left arbitrary: n w)
  case 0
  show ?case
    by (cases "api w 0") (auto simp: send_def emit_def)
next
  case (Suc l)
  let ?w1 = "snd (send rq w)"
  have t1: "trace ?w1 = trace w @ [Get rq]" by (simp add: send_def emit_def)
  have step: "\<exists>evs. trace (snd (urlopen cfg rq (Suc n) l (sleep cfg resp (Suc n) ?w1))) = trace w @ evs
     \<and> (\<forall>e\<in>set evs. e = Get rq \<or> (\<exists>d. e = Sleep d))
     \<and> length (filter (\<lambda>e. e = Get rq) evs) \<le> Suc (Suc l)" for resp
  proof -
    obtain e1 where e1: "trace (sleep cfg resp (Suc n) ?w1) = trace ?w1 @ e1" "\<forall>e\<in>set e1. \<exists>d. e = Sleep d"
      using sleep_events by blast
    obtain e2 where e2: "trace (snd (urlopen cfg rq (Suc n) l (sleep cfg resp (Suc n) ?w1)))
          = trace (sleep cfg resp (Suc n) ?w1) @ e2"
        "\<forall>e\<in>set e2. e = Get rq \<or> (\<exists>d. e = Sleep d)" "length (filter (\<lambda>e. e = Get rq) e2) \<le> Suc l"
      using Suc.IH by blast
    have "filter (\<lambda>e. e = Get rq) e1 = []" using e1(2) by (auto simp: filter_empty_conv)
    then show ?thesis using e1 e2 t1
      by (intro exI [of _ "Get rq # e1 @ e2"]) auto
  qed
  show ?case
  proof (cases "api w 0")
    case NetFail
    then show ?thesis using step [of None] by (simp add: send_def)
  next
    case (Resp r0)
    show ?thesis
    proof (cases "is_retry cfg (Suc l) r0")
      case True
      with Resp show ?thesis using step [of "Some r0"] by (simp add: send_def)
    next
      case False
      with Resp show ?thesis by (auto simp: send_def emit_def)
    qed
  qed
qed

lemma session_get_events:
  "\<exists>evs. trace (snd (session_get st rq w)) = trace w @ evs
     \<and> (\<forall>e\<in>set evs. e = Get rq \<or> (\<exists>d. e = Sleep d))"
  unfolding session_get_def using urlopen_events by blast

lemma search_response_events:
  "\<exists>evs. trace (snd (search_response r silent w)) = trace w @ evs \<and> (\<forall>e\<in>set evs. \<exists>s. e = Print s)"
  by (auto simp: search_response_def print_def emit_def Let_def
      split: option.splits json.splits)

text \<open>The steps of a call on the session, as facts about \<open>referentiel\<close> and \<open>search\<close>.\<close>

lemma referentiel_events:
  "\<exists>e1 e2. trace (snd (snd (referentiel st name w))) = trace w @ e1 @ e2
     \<and> trace (snd (snd (get_headers st w))) = trace w @ e1
     \<and> (\<forall>rq. Get rq \<notin> set e1)
     \<and> (e2 = [] \<or> (\<exists>h. fst (get_headers st w) = Inr h
           \<and> fst (snd (referentiel st name w)) = fst (snd (get_headers st w))
           \<and> (\<forall>rq. Get rq \<in> set e2 \<longrightarrow> req_headers rq = h)))"
proof -
  obtain e1 where e1: "trace (snd (snd (get_headers st w))) = trace w @ e1" "\<forall>rq. Get rq \<notin> set e1"
    using get_headers_events by blast
  show ?thesis
  proof (cases "fst (get_headers st w)")
    case (Inl e)
    then show ?thesis using e1
      by (intro exI [of _ e1] exI [of _ "[]"]) (auto simp: referentiel_def split: prod.splits)
  next
    case (Inr h)
    let ?st1 = "fst (snd (get_headers st w))" and ?w1 = "snd (snd (get_headers st w))"
    let ?rq = "api_request ?st1 (REFERENTIEL_ENDPOINT @ ''/'' @ name) JNull h"
    obtain e2 where e2: "trace (snd (session_get ?st1 ?rq ?w1)) = trace ?w1 @ e2"
      "\<forall>e\<in>set e2. e = Get ?rq \<or> (\<exists>d. e = Sleep d)"
      using session_get_events by blast
    have "trace (snd (snd (referentiel st name w))) = trace w @ e1 @ e2"
      and "fst (snd (referentiel st name w)) = ?st1"
      using Inr e1 e2
      by (auto simp: referentiel_def split: prod.splits sum.splits option.splits)
    moreover have "\<forall>rq. Get rq \<in> set e2 \<longrightarrow> req_headers rq = h"
      using e2(2) by (auto simp: api_request_def)
    ultimately show ?thesis using e1 Inr
      by (intro exI [of _ e1] exI [of _ e2]) auto
  qed
qed

lemma search_events:
  "\<exists>w0 e0 e1 e2. trace w0 = trace w @ e0 \<and> clock w0 = clock w
     \<and> token_endpoint w0 = token_endpoint w \<and> (\<forall>rq. Get rq \<notin> set e0)
     \<and> trace (snd (snd (get_headers st w0))) = trace w0 @ e1
     \<and> (\<forall>rq. Get rq \<notin> set e1)
     \<and> trace (snd (snd (search st params silent w))) = trace w0 @ e1 @ e2
     \<and> ((\<forall>rq. Get rq \<notin> set e2) \<or> (\<exists>h. fst (get_headers st w0) = Inr h
           \<and> fst (snd (search st params silent w)) = fst (snd (get_headers st w0))
           \<and> (\<forall>rq. Get rq \<in> set e2 \<longrightarrow> req_headers rq = h)))"
proof -
  let ?w0 = "if verbose st then print (''Making request with params '' @ py_str params) w else w"
  have w0: "trace ?w0 = trace w @ (if verbose st then [Print (''Making request with params '' @ py_str params)] else [])"
    "clock ?w0 = clock w" "token_endpoint ?w0 = token_endpoint w"
    by (simp_all add: print_def emit_def)
  obtain e1 where e1: "trace (snd (snd (get_headers st ?w0))) = trace ?w0 @ e1" "\<forall>rq. Get rq \<notin> set e1"
    using get_headers_events by blast
  show ?thesis
  proof (cases "fst (get_headers st ?w0)")
    case (Inl e)
    then have "trace (snd (snd (search st params silent w))) = trace ?w0 @ e1 @ []"
      using e1 by (auto simp: search_def Let_def split: prod.splits)
    then show ?thesis using e1 w0
      by (intro exI [of _ ?w0] exI [of _ "if verbose st then [Print (''Making request with params '' @ py_str params)] else []"]
          exI [of _ e1] exI [of _ "[]"]) auto
  next
    case (Inr h)
    let ?st1 = "fst (snd (get_headers st ?w0))" and ?w1 = "snd (snd (get_headers st ?w0))"
    let ?rq = "api_request ?st1 SEARCH_ENDPOINT params h"
    let ?w2 = "snd (session_get ?st1 ?rq ?w1)"
    obtain e2 where e2: "trace ?w2 = trace ?w1 @ e2"
      "\<forall>e\<in>set e2. e = Get ?rq \<or> (\<exists>d. e = Sleep d)"
      using session_get_events by blast
    have "\<exists>e3. trace (snd (snd (search st params silent w))) = trace ?w0 @ e1 @ e2 @ e3
            \<and> (\<forall>e\<in>set e3. \<exists>s. e = Print s)"
    proof (cases "fst (session_get ?st1 ?rq ?w1)")
      case (Inl e)
      then show ?thesis using Inr e1 e2
        by (intro exI [of _ "[]"]) (auto simp: search_def Let_def split: prod.splits)
    next
      case (Inr r)
      obtain e3 where "trace (snd (search_response r silent ?w2)) = trace ?w2 @ e3"
        "\<forall>e\<in>set e3. \<exists>s. e = Print s"
        using search_response_events by blast
      then show ?thesis using Inr \<open>fst (get_headers st ?w0) = Inr h\<close> e1 e2
        by (intro exI [of _ e3]) (auto simp: search_def Let_def split: prod.splits)
    qed
    then obtain e3 where e3: "trace (snd (snd (search st params silent w))) = trace ?w0 @ e1 @ e2 @ e3"
      "\<forall>e\<in>set e3. \<exists>s. e = Print s" by blast
    have st': "fst (snd (search st params silent w)) = ?st1"
      using Inr by (auto simp: search_def Let_def split: prod.splits sum.splits)
    have "\<forall>rq. Get rq \<in> set (e2 @ e3) \<longrightarrow> req_headers rq = h"
      using e2(2) e3(2) by (auto simp: api_request_def)
    then show ?thesis using e1 e3 w0 Inr st'
      by (intro exI [of _ ?w0] exI [of _ "if verbose st then [Print (''Making request with params '' @ py_str params)] else []"]
          exI [of _ e1] exI [of _ "e2 @ e3"]) auto
  qed
qed

lemma dispatch_provenance:
  assumes w0: "trace w0 = trace w @ e0" "clock w0 = clock w"
      "token_endpoint w0 = token_endpoint w" "\<forall>rq. Get rq \<notin> set e0"
    and e1: "trace (snd (snd (get_headers st w0))) = trace w0 @ e1" "\<forall>rq. Get rq \<notin> set e1"
    and w': "trace w' = trace w0 @ e1 @ e2"
    and e2: "(\<forall>rq. Get rq \<notin> set e2) \<or> (\<exists>h. fst (get_headers st w0) = Inr h
           \<and> st' = fst (snd (get_headers st w0))
           \<and> (\<forall>rq. Get rq \<in> set e2 \<longrightarrow> req_headers rq = h))"
    and rq: "Get rq \<in> set (new_events w w')"
  shows "\<exists>tok a. token st' = Some tok \<and> map_of (entries tok) ''access_token'' = Some a
           \<and> req_headers rq = [(''Authorization'', ''Bearer '' @ py_str a)]
           \<and> provenance st w tok st' w'"
proof -
  let ?wh = "snd (snd (get_headers st w0))"
  have new: "new_events w w' = e0 @ e1 @ e2"
    using w0(1) w' by (simp add: new_events_def)
  with rq w0(4) e1(2) have in2: "Get rq \<in> set e2" by auto
  with e2 obtain h where h: "fst (get_headers st w0) = Inr h"
    and st': "st' = fst (snd (get_headers st w0))" and rqh: "req_headers rq = h"
    by blast
  have wh: "trace w' = trace ?wh @ e2"
    using e1(1) w' by simp
  from get_headers_Inr [OF h] obtain tok a where ta:
    "token st' = Some tok" "map_of (entries tok) ''access_token'' = Some a"
    "h = [(''Authorization'', ''Bearer '' @ py_str a)]"
    and pr: "provenance st w0 tok st' ?wh"
    unfolding st' by blast
  have "provenance st w tok st' w'"
  proof (cases "token st = Some tok \<and> st' = st \<and> clock w0 0 < expires_at tok")
    case True
    then show ?thesis using w0(2) by simp
  next
    case False
    with pr have ex: "token st = None \<or> (\<exists>t. token st = Some t \<and> expires_at t \<le> clock w0 0)"
      and "fetched st w0 tok st' ?wh" by auto
    then obtain w1 pre post where f: "fst (get_token st w1) = Inr tok"
      "st' = fst (snd (get_token st w1))" "token_endpoint w1 = token_endpoint w0"
      "clock w1 = (if token st = None then clock w0 else (\<lambda>n. clock w0 (Suc n)))"
      "trace w1 = trace w0 @ pre" "\<forall>rq. Get rq \<notin> set pre"
      "trace ?wh = trace (snd (snd (get_token st w1))) @ post"
      by blast
    have "fetched st w tok st' w'"
      using f w0 wh
      by (intro exI [of _ w1] exI [of _ "e0 @ pre"] exI [of _ "post @ e2"]) simp
    then show ?thesis using ex w0(2) by simp
  qed
  then show ?thesis using ta rqh by blast
qed

text \<open>
  C1. Take a client made by the constructor, any sequence of calls on it, and then one
  more call. Every request that call dispatches on the session carries exactly the header
  \<open>Authorization: Bearer <access_token>\<close> of the token the client holds afterwards, and
  one of two things is the case. Either that token is the cached one, the client is
  unchanged, and the check read a time before its \<open>expires_at\<close>. Or no token was cached,
  or the cached one had \<open>expires_at\<close> at or before the time read, and the token was
  fetched in this very call: \<open>get_token\<close> ran in a world of this call (the token endpoint
  as the call found it, the clock where the call had left it, a trace that continues the
  one before the call with no request on the session yet), it returned this token and
  left the client as it is after the call, and the request comes later in the trace than
  the POST of that \<open>get_token\<close>. So no request leaves with a token the check found expired.
\<close>

theorem no_request_with_stale_token:
  assumes "(st, w) = run cs (Api cid secret v p, w_init)"
    and "exec c (st, w) = (st', w')"
    and "Get rq \<in> set (new_events w w')"
  shows "\<exists>tok a. token st' = Some tok \<and> map_of (entries tok) ''access_token'' = Some a
           \<and> req_headers rq = [(''Authorization'', ''Bearer '' @ py_str a)]
           \<and> ((token st = Some tok \<and> st' = st \<and> clock w 0 < expires_at tok)
               \<or> ((token st = None \<or> (\<exists>t. token st = Some t \<and> expires_at t \<le> clock w 0))
                   \<and> (\<exists>w1 pre post. fst (get_token st w1) = Inr tok
                         \<and> st' = fst (snd (get_token st w1))
                         \<and> token_endpoint w1 = token_endpoint w
                         \<and> clock w1 = (if token st = None then clock w else (\<lambda>n. clock w (Suc n)))
                         \<and> trace w1 = trace w @ pre \<and> (\<forall>rq. Get rq \<notin> set pre)
                         \<and> trace w' = trace (snd (snd (get_token st w1))) @ post)))"
proof (cases c)
  case GetToken
  with assms(2) have "snd (get_token st w) = (st', w')" by simp
  then have "w' = snd (snd (get_token st w))" by simp
  then have "new_events w w' = [Now (clock w 0), Post (token_request st)]"
    by (simp add: new_events_def get_token_trace)
  with assms(3) show ?thesis by simp
next
  case (Referentiel name)
  with assms(2) have "snd (referentiel st name w) = (st', w')" by simp
  then have r: "fst (snd (referentiel st name w)) = st'" "snd (snd (referentiel st name w)) = w'"
    by simp_all
  from referentiel_events [of st name w] obtain e1 e2 where
     a: "trace w' = trace w @ e1 @ e2"
     and b: "trace (snd (snd (get_headers st w))) = trace w @ e1"
     and c: "\<forall>rq. Get rq \<notin> set e1"
     and d: "e2 = [] \<or> (\<exists>h. fst (get_headers st w) = Inr h
           \<and> st' = fst (snd (get_headers st w))
           \<and> (\<forall>rq. Get rq \<in> set e2 \<longrightarrow> req_headers rq = h))"
    unfolding r by metis
  from d have d': "(\<forall>rq. Get rq \<notin> set e2) \<or> (\<exists>h. fst (get_headers st w) = Inr h
           \<and> st' = fst (snd (get_headers st w))
           \<and> (\<forall>rq. Get rq \<in> set e2 \<longrightarrow> req_headers rq = h))" by auto
  show ?thesis
    by (rule dispatch_provenance [where ?w0.0 = w and ?e0.0 = "[]" and ?e1.0 = e1 and ?e2.0 = e2])
       (use a b c d' assms(3) in simp_all)
next
  case (Search params silent)
  with assms(2) have "snd (search st params silent w) = (st', w')" by simp
  then have r: "fst (snd (search st params silent w)) = st'" "snd (snd (search st params silent w)) = w'"
    by simp_all
  from search_events [of w st params silent] obtain w0 e0 e1 e2 where
     a: "trace w0 = trace w @ e0" "clock w0 = clock w" "token_endpoint w0 = token_endpoint w"
        "\<forall>rq. Get rq \<notin> set e0"
     and b: "trace (snd (snd (get_headers st w0))) = trace w0 @ e1"
     and c: "\<forall>rq. Get rq \<notin> set e1"
     and d: "trace w' = trace w0 @ e1 @ e2"
     and e: "(\<forall>rq. Get rq \<notin> set e2) \<or> (\<exists>h. fst (get_headers st w0) = Inr h
           \<and> st' = fst (snd (get_headers st w0))
           \<and> (\<forall>rq. Get rq \<in> set e2 \<longrightarrow> req_headers rq = h))"
    unfolding r by metis
  show ?thesis
    by (rule dispatch_provenance [OF a b c d e assms(3)])
qed

lemma run1: "run [GetToken] (Api ''id'' ''secret'' False None, world0 1000 (Resp themes_response)) = (client1, world1)"
  using get_token_world0 [of "Resp themes_response"]
  by (simp add: run_def client1_def world1_def token1_def client0_def)

lemma referentiel1: "referentiel client1 ''themes'' world1 = (Inr (JList [JDict [(''code'', JStr ''1''), (''libelle'', JStr ''Art'')]]), client1, world2)"
  by (simp add: referentiel_def get_headers_def is_expired_def today_def emit_def bearer_def
        client1_def token1_def world1_def world2_def request1_def py_str_def
        session_get_def client0_def Api_def numeral_3_eq_3 send_def is_retry_def
        themes_response_def plain_response_def raise_for_status_def)

theorem no_request_with_stale_token_witness:
  "(client1, world1) = run [GetToken] (Api ''id'' ''secret'' False None, world0 1000 (Resp themes_response))
   \<and> exec (Referentiel ''themes'') (client1, world1) = (client1, world2)
   \<and> Get request1 \<in> set (new_events world1 world2)
   \<and> token client1 = Some token1
   \<and> req_headers request1 = [(''Authorization'', ''Bearer abc'')]
   \<and> clock world1 0 < expires_at token1"
proof -
  have h1: "(client1, world1) = run [GetToken] (Api ''id'' ''secret'' False None, world0 1000 (Resp themes_response))"
    by (simp add: run1)
  have h2: "exec (Referentiel ''themes'') (client1, world1) = (client1, world2)"
    by (simp add: referentiel1)
  have h3: "Get request1 \<in> set (new_events world1 world2)"
    by (simp add: new_events_def world1_def world2_def)
  from no_request_with_stale_token [OF h1 h2 h3]
  obtain tok a where "token client1 = Some tok" "map_of (entries tok) ''access_token'' = Some a"
    "req_headers request1 = [(''Authorization'', ''Bearer '' @ py_str a)]" by blast
  then have "token client1 = Some token1 \<and> req_headers request1 = [(''Authorization'', ''Bearer abc'')]"
    by (auto simp: client1_def token1_def py_str_def)
  then show ?thesis using h1 h2 h3 by (simp add: world1_def token1_def)
qed

subsection \<open>The retry policy of the session\<close>









subsection \<open>search\<close>

lemma search_via_reply:
  "search_reply st params w = Some (r, st1, w2) \<Longrightarrow>
     search st params silent w = (fst (search_response r silent w2), st1, snd (search_response r silent w2))"
  by (auto simp: search_reply_def search_def Let_def split: prod.splits sum.splits)

lemma search_reply_world_with:
  "status_code r \<noteq> 429 \<Longrightarrow> status_code r \<noteq> 502 \<Longrightarrow>
   search_reply client1 params (world_with r)
     = Some (r, client1, world_with r\<lparr>clock := (\<lambda>_. 1000), api := (\<lambda>_. Resp r),
          trace := [Now 1000, Post (token_request client0), Now 1000,
                    Get (api_request client1 SEARCH_ENDPOINT params [(''Authorization'', ''Bearer abc'')])]\<rparr>)"
  by (simp add: search_reply_def get_headers_def is_expired_def today_def emit_def bearer_def
        client1_def token1_def world1_def world_with_def py_str_def
        session_get_def client0_def Api_def numeral_3_eq_3 send_def is_retry_def)

lemma not_digit_sep [simp]: "\<not> is_digit CHR ''-''" "\<not> is_digit CHR ''/''"
  by (simp_all add: is_digit_def)

lemma match_here_form:
  assumes "a \<noteq> []" "b \<noteq> []" "m \<noteq> []" "list_all is_digit a" "list_all is_digit b" "list_all is_digit m"
  shows "match_here (''offres '' @ a @ ''-'' @ b @ ''/'' @ m) = Some (a, b, m)"
proof -
  have a: "takeWhile is_digit (a @ CHR ''-'' # b @ CHR ''/'' # m) = a"
    "dropWhile is_digit (a @ CHR ''-'' # b @ CHR ''/'' # m) = CHR ''-'' # b @ CHR ''/'' # m"
    using assms(4) by (simp_all add: list_all_iff takeWhile_append2 dropWhile_append2)
  have b: "takeWhile is_digit (b @ CHR ''/'' # m) = b"
    "dropWhile is_digit (b @ CHR ''/'' # m) = CHR ''/'' # m"
    using assms(5) by (simp_all add: list_all_iff takeWhile_append2 dropWhile_append2)
  have m: "takeWhile is_digit m = m"
    using assms(6) by (simp add: list_all_iff takeWhile_eq_all_conv)
  show ?thesis
    using assms(1-3) by (simp add: match_here_def a b m)
qed

lemma re_search_form:
  assumes "a \<noteq> []" "b \<noteq> []" "m \<noteq> []" "list_all is_digit a" "list_all is_digit b" "list_all is_digit m"
  shows "re_search (''offres '' @ a @ ''-'' @ b @ ''/'' @ m) = Some (a, b, m)"
  using match_here_form [OF assms] by simp

text \<open>
  C4, as the code has it. When the session hands \<open>search\<close> a 2xx response whose
  \<open>Content-Range\<close> header is \<open>offres <first>-<last>/<max>\<close>, three non-empty runs of
  digits, then for a body that decodes to an object \<open>search\<close> returns that object with the
  key \<open>Content-Range\<close> set, and whenever it returns a structure the value under that key is
  the dictionary of the three captured texts: \<open>first_index\<close>, \<open>last_index\<close> and
  \<open>max_results\<close> are the digit strings as they stand in the header, not numbers.
\<close>

theorem search_content_range:
  assumes "search_reply st params w = Some (r, st1, w2)"
    and "200 \<le> status_code r" and "status_code r < 300"
    and "headers r ''Content-Range'' = Some (''offres '' @ a @ ''-'' @ b @ ''/'' @ m)"
    and "a \<noteq> []" "b \<noteq> []" "m \<noteq> []"
    and "list_all is_digit a" "list_all is_digit b" "list_all is_digit m"
  shows "(\<forall>kvs. json r = Some (JDict kvs) \<longrightarrow>
            fst (search st params silent w)
              = Inr (Some (JDict (AList.update ''Content-Range''
                   (JDict [(''first_index'', JStr a), (''last_index'', JStr b), (''max_results'', JStr m)])
                   kvs))))
       \<and> (\<forall>out. fst (search st params silent w) = Inr (Some out) \<longrightarrow>
            content_range (fst (search st params silent w))
              = Some (JDict [(''first_index'', JStr a), (''last_index'', JStr b), (''max_results'', JStr m)]))"
proof -
  have rs: "raise_for_status r = None"
    using assms(2,3) by (simp add: raise_for_status_def)
  have re: "re_search (''offres '' @ a @ ''-'' @ b @ ''/'' @ m) = Some (a, b, m)"
    using assms(5-10) by (rule re_search_form)
  have s: "fst (search st params silent w) = fst (search_response r silent w2)"
    by (simp add: search_via_reply [OF assms(1)])
  show ?thesis
    unfolding s using rs re assms(4)
    by (auto simp: search_response_def groupdict_def content_range_def update_conv'
        split: option.splits json.splits)
qed

theorem search_content_range_witness:
  "search_reply client1 JNull (world_with offers_response)
     = Some (offers_response, client1,
         world_with offers_response\<lparr>clock := (\<lambda>_. 1000), api := (\<lambda>_. Resp offers_response),
          trace := [Now 1000, Post (token_request client0), Now 1000,
                    Get (api_request client1 SEARCH_ENDPOINT JNull [(''Authorization'', ''Bearer abc'')])]\<rparr>)
   \<and> headers offers_response ''Content-Range'' = Some (''offres '' @ ''0'' @ ''-'' @ ''19'' @ ''/'' @ ''134'')
   \<and> fst (search client1 JNull False (world_with offers_response))
       = Inr (Some (JDict [(''resultats'', JList []),
           (''Content-Range'', JDict [(''first_index'', JStr ''0''), (''last_index'', JStr ''19''),
                                     (''max_results'', JStr ''134'')])]))"
proof -
  have h1: "search_reply client1 JNull (world_with offers_response)
     = Some (offers_response, client1,
         world_with offers_response\<lparr>clock := (\<lambda>_. 1000), api := (\<lambda>_. Resp offers_response),
          trace := [Now 1000, Post (token_request client0), Now 1000,
                    Get (api_request client1 SEARCH_ENDPOINT JNull [(''Authorization'', ''Bearer abc'')])]\<rparr>)"
    by (rule search_reply_world_with) (simp_all add: offers_response_def)
  have h2: "200 \<le> status_code offers_response" "status_code offers_response < 300"
    by (simp_all add: offers_response_def)
  have h3: "headers offers_response ''Content-Range'' = Some (''offres '' @ ''0'' @ ''-'' @ ''19'' @ ''/'' @ ''134'')"
    by (simp add: offers_response_def)
  have h4: "''0'' \<noteq> []" "''19'' \<noteq> []" "''134'' \<noteq> []"
    "list_all is_digit ''0''" "list_all is_digit ''19''" "list_all is_digit ''134''"
    by (simp_all add: is_digit_def)
  have h5: "json offers_response = Some (JDict [(''resultats'', JList [])])"
    by (simp add: offers_response_def)
  from search_content_range [OF h1 h2 h3 h4, where silent = False, THEN conjunct1, rule_format, OF h5]
  show ?thesis using h1 h3 by simp
qed

text \<open>
  C4 as stated fails: for the header \<open>offres 0-19/134\<close> the range holds the strings
  \<open>'0'\<close>, \<open>'19'\<close> and \<open>'134'\<close>, which is not the dictionary of the integers 0, 19 and 134.
\<close>

theorem search_content_range_strings:
  "content_range (fst (search client1 JNull False (world_with offers_response)))
     = Some (JDict [(''first_index'', JStr ''0''), (''last_index'', JStr ''19''), (''max_results'', JStr ''134'')])
   \<and> content_range (fst (search client1 JNull False (world_with offers_response)))
     \<noteq> Some (JDict [(''first_index'', JInt 0), (''last_index'', JInt 19), (''max_results'', JInt 134)])"
proof -
  have "search_reply client1 JNull (world_with offers_response)
     = Some (offers_response, client1,
         world_with offers_response\<lparr>clock := (\<lambda>_. 1000), api := (\<lambda>_. Resp offers_response),
          trace := [Now 1000, Post (token_request client0), Now 1000,
                    Get (api_request client1 SEARCH_ENDPOINT JNull [(''Authorization'', ''Bearer abc'')])]\<rparr>)"
    by (rule search_reply_world_with) (simp_all add: offers_response_def)
  from search_via_reply [OF this, where silent = False]
  show ?thesis
    by (simp add: search_response_def raise_for_status_def offers_response_def match_here_def
        is_digit_def groupdict_def content_range_def)
qed

text \<open>
  C5, as the code has it. When the session hands \<open>search\<close> a 2xx response whose
  \<open>Content-Range\<close> header is absent, or present with no place in it where the pattern
  of \<open>search\<close> matches, the call fails, with or without \<open>silent_http_errors\<close>: it raises
  \<open>KeyError('content-range')\<close> for the absent header and \<open>AttributeError\<close> (\<open>re.search\<close>
  gave \<open>None\<close>) for the one without a match.
\<close>

theorem search_malformed_content_range:
  assumes "search_reply st params w = Some (r, st1, w2)"
    and "200 \<le> status_code r" and "status_code r < 300"
    and "headers r ''Content-Range'' = None
         \<or> (\<exists>h. headers r ''Content-Range'' = Some h \<and> re_search h = None)"
  shows "fst (search st params silent w)
           = Inl (if headers r ''Content-Range'' = None then KeyError ''content-range''
                  else AttributeError)"
proof -
  have rs: "raise_for_status r = None"
    using assms(2,3) by (simp add: raise_for_status_def)
  have s: "fst (search st params silent w) = fst (search_response r silent w2)"
    by (simp add: search_via_reply [OF assms(1)])
  show ?thesis
    unfolding s using rs assms(4) by (auto simp: search_response_def)
qed

theorem search_malformed_content_range_witness:
  "search_reply client1 JNull (world_with (offers_response\<lparr>headers := (\<lambda>_. Some ''items 0-19/134'')\<rparr>))
     = Some (offers_response\<lparr>headers := (\<lambda>_. Some ''items 0-19/134'')\<rparr>, client1,
         world_with (offers_response\<lparr>headers := (\<lambda>_. Some ''items 0-19/134'')\<rparr>)
           \<lparr>clock := (\<lambda>_. 1000),
            api := (\<lambda>_. Resp (offers_response\<lparr>headers := (\<lambda>_. Some ''items 0-19/134'')\<rparr>)),
            trace := [Now 1000, Post (token_request client0), Now 1000,
                    Get (api_request client1 SEARCH_ENDPOINT JNull [(''Authorization'', ''Bearer abc'')])]\<rparr>)
   \<and> status_code (offers_response\<lparr>headers := (\<lambda>_. Some ''items 0-19/134'')\<rparr>) = 200
   \<and> re_search ''items 0-19/134'' = None
   \<and> fst (search client1 JNull True (world_with (offers_response\<lparr>headers := (\<lambda>_. Some ''items 0-19/134'')\<rparr>)))
       = Inl AttributeError"
proof -
  let ?r = "offers_response\<lparr>headers := (\<lambda>_. Some ''items 0-19/134'')\<rparr>"
  have h1: "search_reply client1 JNull (world_with ?r)
     = Some (?r, client1, world_with ?r\<lparr>clock := (\<lambda>_. 1000), api := (\<lambda>_. Resp ?r),
            trace := [Now 1000, Post (token_request client0), Now 1000,
                    Get (api_request client1 SEARCH_ENDPOINT JNull [(''Authorization'', ''Bearer abc'')])]\<rparr>)"
    by (rule search_reply_world_with) (simp_all add: offers_response_def)
  have h2: "200 \<le> status_code ?r" "status_code ?r < 300" and h2': "status_code ?r = 200"
    by (simp_all add: offers_response_def)
  have h3: "re_search ''items 0-19/134'' = None"
    by (simp add: match_here_def)
  have h4: "headers ?r ''Content-Range'' = None
         \<or> (\<exists>h. headers ?r ''Content-Range'' = Some h \<and> re_search h = None)"
    using h3 by simp
  from search_malformed_content_range [OF h1 h2 h4, where silent = True]
  show ?thesis using h1 h2' h3 by simp
qed

text \<open>
  C5 as stated fails: the header \<open>offres 0-19/134x\<close> is not of the form
  \<open>offres <first>-<last>/<max>\<close>, yet \<open>search\<close> raises nothing and returns the range of
  the match it finds inside the header.
\<close>

theorem search_trailing_text_accepted:
  "\<not> content_range_form ''offres 0-19/134x''
   \<and> headers trailing_response ''Content-Range'' = Some ''offres 0-19/134x''
   \<and> status_code trailing_response = 200
   \<and> fst (search client1 JNull False (world_with trailing_response))
       = Inr (Some (JDict [(''resultats'', JList []),
           (''Content-Range'', JDict [(''first_index'', JStr ''0''), (''last_index'', JStr ''19''),
                                     (''max_results'', JStr ''134'')])]))"
proof -
  have "search_reply client1 JNull (world_with trailing_response)
     = Some (trailing_response, client1,
         world_with trailing_response\<lparr>clock := (\<lambda>_. 1000), api := (\<lambda>_. Resp trailing_response),
          trace := [Now 1000, Post (token_request client0), Now 1000,
                    Get (api_request client1 SEARCH_ENDPOINT JNull [(''Authorization'', ''Bearer abc'')])]\<rparr>)"
    by (rule search_reply_world_with) (simp_all add: trailing_response_def)
  from search_via_reply [OF this, where silent = False]
  have "fst (search client1 JNull False (world_with trailing_response))
       = Inr (Some (JDict [(''resultats'', JList []),
           (''Content-Range'', JDict [(''first_index'', JStr ''0''), (''last_index'', JStr ''19''),
                                     (''max_results'', JStr ''134'')])]))"
    by (simp add: search_response_def raise_for_status_def trailing_response_def match_here_def
        is_digit_def groupdict_def)
  moreover have "\<not> content_range_form ''offres 0-19/134x''"
    by (simp add: content_range_form_def match_here_def is_digit_def)
  ultimately show ?thesis by (simp add: trailing_response_def)
qed

lemma get_token_session: "session (fst (snd (get_token st w))) = session st"
  by (simp add: get_token_unfold split: reply.splits sum.splits)

lemma get_headers_session: "session (fst (snd (get_headers st w))) = session st"
proof (cases "token st")
  case None
  let ?w1 = "if verbose st then print ''Token has not been requested yet. Requesting token'' w else w"
  from None have "fst (snd (get_headers st w)) = fst (snd (get_token st ?w1))"
    by (auto simp: get_headers_def request_token_def split: prod.splits sum.splits)
  then show ?thesis by (simp add: get_token_session)
next
  case (Some t)
  let ?w0 = "snd (today w)"
  let ?w1 = "if verbose st then print ''Token is expired. Requesting new token'' ?w0 else ?w0"
  have ie: "is_expired st w = (Inr (expires_at t \<le> clock w 0), ?w0)"
    by (simp add: is_expired_def today_def Some)
  show ?thesis
  proof (cases "expires_at t \<le> clock w 0")
    case True
    with Some ie have "fst (snd (get_headers st w)) = fst (snd (get_token st ?w1))"
      by (auto simp: get_headers_def request_token_def split: prod.splits sum.splits)
    then show ?thesis by (simp add: get_token_session)
  next
    case False
    with Some ie have "fst (snd (get_headers st w)) = st"
      by (simp add: get_headers_def)
    then show ?thesis by simp
  qed
qed

lemma urlopen_Inr_status:
  "fst (urlopen cfg rq n left w) = Inr r \<Longrightarrow> status_code r \<notin> set (status_forcelist cfg)"
proof (induction left arbitrary: n w)
  case 0
  then show ?case
    by (auto simp: send_def is_retry_def split: reply.splits if_splits)
next
  case (Suc l)
  show ?case
  proof (cases "api w 0")
    case NetFail
    with Suc.prems show ?thesis by (auto simp: send_def dest: Suc.IH)
  next
    case (Resp r0)
    show ?thesis
    proof (cases "is_retry cfg (Suc l) r0")
      case True
      with Resp Suc.prems show ?thesis by (auto simp: send_def dest: Suc.IH)
    next
      case False
      with Resp Suc.prems show ?thesis by (auto simp: send_def is_retry_def)
    qed
  qed
qed

lemma urlopen_Inl:
  "fst (urlopen cfg rq n left w) = Inl e \<Longrightarrow> e = RetryError \<or> e = ConnectionError"
proof (induction left arbitrary: n w)
  case 0
  then show ?case
    by (auto simp: send_def split: reply.splits if_splits)
next
  case (Suc l)
  show ?case
  proof (cases "api w 0")
    case NetFail
    with Suc.prems show ?thesis by (auto simp: send_def dest: Suc.IH)
  next
    case (Resp r0)
    with Suc.prems show ?thesis
      by (cases "is_retry cfg (Suc l) r0") (auto simp: send_def dest: Suc.IH)
  qed
qed

lemma search_reply_status:
  assumes "session st = session (Api cid secret v p)"
    and "search_reply st params w = Some (r, st1, w2)"
  shows "status_code r \<noteq> 429 \<and> status_code r \<noteq> 502"
proof -
  let ?w0 = "if verbose st then print (''Making request with params '' @ py_str params) w else w"
  from assms(2) obtain hdrs st' w1 where gh: "get_headers st ?w0 = (Inr hdrs, st', w1)"
    and sg: "fst (session_get st' (api_request st' SEARCH_ENDPOINT params hdrs) w1) = Inr r"
    by (auto simp: search_reply_def Let_def split: prod.splits sum.splits)
  have "session st' = session st"
    using get_headers_session [of st ?w0] gh by simp
  moreover from sg have "status_code r \<notin> set (status_forcelist (session st'))"
    unfolding session_get_def by (rule urlopen_Inr_status)
  ultimately show ?thesis
    by (simp add: assms(1) Api_def)
qed

lemma search_via_error:
  assumes "search_session_error st params w = Some e"
  shows "(e = RetryError \<or> e = ConnectionError) \<and> fst (search st params silent w) = Inl e"
proof -
  let ?w0 = "if verbose st then print (''Making request with params '' @ py_str params) w else w"
  from assms obtain hdrs st' w1 where gh: "get_headers st ?w0 = (Inr hdrs, st', w1)"
    and e: "fst (session_get st' (api_request st' SEARCH_ENDPOINT params hdrs) w1) = Inl e"
    by (auto simp: search_session_error_def Let_def split: prod.splits sum.splits)
  from e have "e = RetryError \<or> e = ConnectionError"
    unfolding session_get_def by (rule urlopen_Inl)
  moreover from gh e have "fst (search st params silent w) = Inl e"
    by (auto simp: search_def Let_def split: prod.splits sum.splits)
  ultimately show ?thesis by simp
qed

text \<open>
  C6, as the code has it. Let the session hand \<open>search\<close> a response for which
  \<open>raise_for_status\<close> raises with the text \<open>err\<close>. If the status is exactly 400 and the
  body decodes to an object whose \<open>message\<close> is a string, the text raised, or printed
  under \<open>silent_http_errors\<close>, is \<open>err\<close>, a newline and that message. For every other
  4xx or 5xx status it is \<open>err\<close> alone. The session of a client made by the constructor
  never hands over a 429 or a 502: it tries again, and when it raises instead of
  returning a response, which is \<open>RetryError\<close> once the attempts are used up or the error
  of a failed connection, \<open>search\<close> raises that error as it is, in both modes.
\<close>

theorem search_error_text:
  "(\<forall>r st1 w2 err. search_reply st params w = Some (r, st1, w2) \<and> raise_for_status r = Some err
      \<longrightarrow> (status_code r = 400 \<longrightarrow>
             (\<forall>kvs m. json r = Some (JDict kvs) \<and> map_of kvs ''message'' = Some (JStr m)
                \<longrightarrow> surfaces st params silent w (err @ [CHR 0x0A] @ m)))
          \<and> (status_code r \<noteq> 400 \<longrightarrow> surfaces st params silent w err))
   \<and> (\<forall>r st1 w2. session st = session (Api cid secret v p)
          \<and> search_reply st params w = Some (r, st1, w2)
      \<longrightarrow> status_code r \<noteq> 429 \<and> status_code r \<noteq> 502)
   \<and> (\<forall>e. search_session_error st params w = Some e
      \<longrightarrow> (e = RetryError \<or> e = ConnectionError) \<and> fst (search st params silent w) = Inl e)"
proof -
  have A: "\<forall>r st1 w2 err. search_reply st params w = Some (r, st1, w2) \<and> raise_for_status r = Some err
      \<longrightarrow> (status_code r = 400 \<longrightarrow>
             (\<forall>kvs m. json r = Some (JDict kvs) \<and> map_of kvs ''message'' = Some (JStr m)
                \<longrightarrow> surfaces st params silent w (err @ [CHR 0x0A] @ m)))
          \<and> (status_code r \<noteq> 400 \<longrightarrow> surfaces st params silent w err)"
  proof (intro allI impI)
    fix r st1 w2 err
    assume a: "search_reply st params w = Some (r, st1, w2) \<and> raise_for_status r = Some err"
    then have s: "search st params silent w
        = (fst (search_response r silent w2), st1, snd (search_response r silent w2))"
      by (intro search_via_reply) simp
    show "(status_code r = 400 \<longrightarrow>
             (\<forall>kvs m. json r = Some (JDict kvs) \<and> map_of kvs ''message'' = Some (JStr m)
                \<longrightarrow> surfaces st params silent w (err @ [CHR 0x0A] @ m)))
          \<and> (status_code r \<noteq> 400 \<longrightarrow> surfaces st params silent w err)"
      unfolding s using a
      by (auto simp: search_response_def print_def emit_def printed_def)
  qed
  have B: "\<forall>r st1 w2. session st = session (Api cid secret v p)
          \<and> search_reply st params w = Some (r, st1, w2)
      \<longrightarrow> status_code r \<noteq> 429 \<and> status_code r \<noteq> 502"
    using search_reply_status by blast
  have C: "\<forall>e. search_session_error st params w = Some e
      \<longrightarrow> (e = RetryError \<or> e = ConnectionError) \<and> fst (search st params silent w) = Inl e"
    using search_via_error by blast
  show ?thesis by (rule conjI [OF A conjI [OF B C]])
qed

lemma search_reply_plain:
  "code \<noteq> 429 \<Longrightarrow> code \<noteq> 502 \<Longrightarrow>
   search_reply client1 JNull (world_with (plain_response code why body))
     = Some (plain_response code why body, client1,
         world_with (plain_response code why body)
           \<lparr>clock := (\<lambda>_. 1000), api := (\<lambda>_. Resp (plain_response code why body)),
            trace := [Now 1000, Post (token_request client0), Now 1000,
                    Get (api_request client1 SEARCH_ENDPOINT JNull [(''Authorization'', ''Bearer abc'')])]\<rparr>)"
  by (rule search_reply_world_with) (simp_all add: plain_response_def)

lemma raise_400:
  "raise_for_status (plain_response 400 ''Bad Request'' body)
     = Some ''400 Client Error: Bad Request for url: u''"
  by (simp add: raise_for_status_def plain_response_def str_int_def str_nat.simps digit_char_def)

lemma raise_404:
  "raise_for_status (plain_response 404 ''Not Found'' body)
     = Some ''404 Client Error: Not Found for url: u''"
  by (simp add: raise_for_status_def plain_response_def str_int_def str_nat.simps digit_char_def)

lemma search_session_error_429:
  "search_session_error client1 JNull (world_with too_many_requests) = Some RetryError"
  by (simp add: search_session_error_def get_headers_def is_expired_def today_def emit_def bearer_def
        client1_def token1_def world1_def world_with_def py_str_def too_many_requests_def
        plain_response_def session_get_def client0_def Api_def numeral_3_eq_3 send_def is_retry_def
        sleep_def sleep_backoff_def get_backoff_time_def)

theorem search_error_text_witness:
  "raise_for_status (plain_response 400 ''Bad Request'' (Some invalid_filter))
     = Some ''400 Client Error: Bad Request for url: u''
   \<and> fst (search client1 JNull True (world_with (plain_response 400 ''Bad Request'' (Some invalid_filter))))
       = Inr None
   \<and> printed (snd (snd (search client1 JNull True
         (world_with (plain_response 400 ''Bad Request'' (Some invalid_filter))))))
       = Some (''400 Client Error: Bad Request for url: u'' @ [CHR 0x0A] @ ''invalid filter'')
   \<and> search_session_error client1 JNull (world_with too_many_requests) = Some RetryError
   \<and> fst (search client1 JNull True (world_with too_many_requests)) = Inl RetryError"
proof -
  let ?r = "plain_response 400 ''Bad Request'' (Some invalid_filter)"
  have j: "status_code ?r = 400"
    "json ?r = Some (JDict [(''message'', JStr ''invalid filter'')])
       \<and> map_of [(''message'', JStr ''invalid filter'')] ''message'' = Some (JStr ''invalid filter'')"
    by (simp_all add: plain_response_def invalid_filter_def)
  have r: "search_reply client1 JNull (world_with ?r)
     = Some (?r, client1, world_with ?r\<lparr>clock := (\<lambda>_. 1000), api := (\<lambda>_. Resp ?r),
            trace := [Now 1000, Post (token_request client0), Now 1000,
                    Get (api_request client1 SEARCH_ENDPOINT JNull [(''Authorization'', ''Bearer abc'')])]\<rparr>)"
    by (rule search_reply_plain) simp_all
  have a: "search_reply client1 JNull (world_with ?r)
     = Some (?r, client1, world_with ?r\<lparr>clock := (\<lambda>_. 1000), api := (\<lambda>_. Resp ?r),
            trace := [Now 1000, Post (token_request client0), Now 1000,
                    Get (api_request client1 SEARCH_ENDPOINT JNull [(''Authorization'', ''Bearer abc'')])]\<rparr>)
     \<and> raise_for_status ?r = Some ''400 Client Error: Bad Request for url: u''"
    using r raise_400 by simp
  from search_error_text [where st = client1 and params = JNull and silent = True
      and w = "world_with ?r", THEN conjunct1, rule_format, OF a, THEN conjunct1, rule_format, OF j]
  have one: "fst (search client1 JNull True (world_with ?r)) = Inr None
     \<and> printed (snd (snd (search client1 JNull True (world_with ?r))))
       = Some (''400 Client Error: Bad Request for url: u'' @ [CHR 0x0A] @ ''invalid filter'')"
    by simp
  from search_error_text [where st = client1 and params = JNull and silent = True
      and w = "world_with too_many_requests", THEN conjunct2, THEN conjunct2, rule_format,
      OF search_session_error_429]
  have two: "fst (search client1 JNull True (world_with too_many_requests)) = Inl RetryError"
    by simp
  show ?thesis using one two raise_400 search_session_error_429 by simp
qed

text \<open>
  C6 as stated fails for a 4xx status other than 400: a 404 whose body is
  \<open>{"message": "invalid filter"}\<close> raises the plain HTTP text, without the message.
\<close>

theorem search_404_message_not_surfaced:
  "fst (search client1 JNull False (world_with (plain_response 404 ''Not Found'' (Some invalid_filter))))
     = Inl (HTTPError ''404 Client Error: Not Found for url: u'')
   \<and> fst (search client1 JNull False (world_with (plain_response 404 ''Not Found'' (Some invalid_filter))))
     \<noteq> Inl (HTTPError (''404 Client Error: Not Found for url: u'' @ [CHR 0x0A] @ ''invalid filter''))"
proof -
  have "search_reply client1 JNull (world_with (plain_response 404 ''Not Found'' (Some invalid_filter)))
     = Some (plain_response 404 ''Not Found'' (Some invalid_filter), client1,
         world_with (plain_response 404 ''Not Found'' (Some invalid_filter))
           \<lparr>clock := (\<lambda>_. 1000),
            api := (\<lambda>_. Resp (plain_response 404 ''Not Found'' (Some invalid_filter))),
            trace := [Now 1000, Post (token_request client0), Now 1000,
                    Get (api_request client1 SEARCH_ENDPOINT JNull [(''Authorization'', ''Bearer abc'')])]\<rparr>)"
    by (rule search_reply_plain) simp_all
  from search_via_reply [OF this, where silent = False]
  show ?thesis
    by (simp add: search_response_def raise_404) (simp add: plain_response_def)
qed

text \<open>
  C8 at a 400 response whose body is not JSON, with \<open>silent_http_errors=True\<close>: the call
  raises the decoding error and prints nothing.
\<close>

theorem search_silent_400_undecodable_raises:
  "fst (search client1 JNull True (world_with (plain_response 400 ''Bad Request'' None)))
     = Inl JSONDecodeError
   \<and> printed (snd (snd (search client1 JNull True (world_with (plain_response 400 ''Bad Request'' None)))))
     = None"
proof -
  have "search_reply client1 JNull (world_with (plain_response 400 ''Bad Request'' None))
     = Some (plain_response 400 ''Bad Request'' None, client1,
         world_with (plain_response 400 ''Bad Request'' None)
           \<lparr>clock := (\<lambda>_. 1000),
            api := (\<lambda>_. Resp (plain_response 400 ''Bad Request'' None)),
            trace := [Now 1000, Post (token_request client0), Now 1000,
                    Get (api_request client1 SEARCH_ENDPOINT JNull [(''Authorization'', ''Bearer abc'')])]\<rparr>)"
    by (rule search_reply_plain) simp_all
  from search_via_reply [OF this, where silent = True]
  show ?thesis
    by (simp add: search_response_def raise_400) (simp add: plain_response_def printed_def world_with_def)
qed

subsection \<open>The errors of get_token\<close>

lemma py_str_invalid_client:
  "py_str invalid_client = ''{'' @ [CHR 0x27] @ ''error'' @ [CHR 0x27] @ '': '' @ [CHR 0x27] @ ''invalid_client'' @ [CHR 0x27] @ ''}''"
  by (simp add: py_str_def invalid_client_def repr_str_def repr_quote_def repr_char_def printable_def Let_def)

text \<open>
  C7, as the code has it. Let the token endpoint answer a response for which
  \<open>raise_for_status\<close> raises with the text \<open>err\<close>. If the status is exactly 400 and the
  body decodes, \<open>get_token\<close> raises an \<open>HTTPError\<close> whose text is \<open>err\<close>, a newline and
  the \<open>str\<close> of the decoded body. For every other 4xx or 5xx status it raises the
  \<open>HTTPError\<close> of \<open>raise_for_status\<close> unchanged.
\<close>

theorem get_token_error_text:
  assumes "token_endpoint w 0 = Resp r" and "raise_for_status r = Some err"
  shows "(status_code r = 400 \<longrightarrow>
            (\<forall>j. json r = Some j \<longrightarrow>
               fst (get_token st w) = Inl (HTTPError (err @ [CHR 0x0A] @ py_str j))))
       \<and> (status_code r \<noteq> 400 \<longrightarrow> fst (get_token st w) = Inl (HTTPError err))"
  using assms by (simp add: get_token_unfold token_of_response_def)

theorem get_token_error_text_witness:
  "token_endpoint (token_world (plain_response 400 ''Bad Request'' (Some invalid_client))) 0
     = Resp (plain_response 400 ''Bad Request'' (Some invalid_client))
   \<and> raise_for_status (plain_response 400 ''Bad Request'' (Some invalid_client))
     = Some ''400 Client Error: Bad Request for url: u''
   \<and> fst (get_token client0 (token_world (plain_response 400 ''Bad Request'' (Some invalid_client))))
     = Inl (HTTPError (''400 Client Error: Bad Request for url: u'' @ [CHR 0x0A]
             @ ''{'' @ [CHR 0x27] @ ''error'' @ [CHR 0x27] @ '': '' @ [CHR 0x27] @ ''invalid_client''
             @ [CHR 0x27] @ ''}''))"
proof -
  let ?r = "plain_response 400 ''Bad Request'' (Some invalid_client)"
  have h1: "token_endpoint (token_world ?r) 0 = Resp ?r"
    by (simp add: token_world_def)
  have h2: "raise_for_status ?r = Some ''400 Client Error: Bad Request for url: u''"
    by (rule raise_400)
  have h3: "status_code ?r = 400" "json ?r = Some invalid_client"
    by (simp_all add: plain_response_def)
  from get_token_error_text [OF h1 h2, where st = client0, THEN conjunct1, rule_format, OF h3]
  show ?thesis using h1 h2 by (simp add: py_str_invalid_client)
qed

text \<open>
  C7 as stated fails for a 4xx status other than 400: a 401 whose body is
  \<open>{"error": "invalid_client"}\<close> raises the plain HTTP text, without the body.
\<close>

theorem get_token_401_body_not_surfaced:
  "fst (get_token client0 (token_world (plain_response 401 ''Unauthorized'' (Some invalid_client))))
     = Inl (HTTPError ''401 Client Error: Unauthorized for url: u'')
   \<and> fst (get_token client0 (token_world (plain_response 401 ''Unauthorized'' (Some invalid_client))))
     \<noteq> Inl (HTTPError (''401 Client Error: Unauthorized for url: u'' @ [CHR 0x0A] @ py_str invalid_client))"
  by (simp add: get_token_unfold token_of_response_def token_world_def plain_response_def
      raise_for_status_def str_int_def str_nat.simps digit_char_def)

subsection \<open>referentiel\<close>







end
